theory Spec2Isabelle
  imports Complex_Main
begin

section \<open>Tables as the two scripts use them\<close>

text \<open>
  Both scripts work on pandas DataFrames. A frame is modelled as an association list from
  column names to columns, in column order; a column is the list of its cells, in row
  order. A cell is a number, a string, or missing (pandas' NaN / None). Numbers are exact
  rationals: the model idealises float64 arithmetic.
\<close>

datatype cell = Num rat | Txt string | NA

type_synonym column = "cell list"
type_synonym frame = "(string \<times> column) list"
type_synonym row = "string \<Rightarrow> cell option"

datatype error = KeyError string | ValueError | TypeError

definition bind_e :: "error + 'a \<Rightarrow> ('a \<Rightarrow> error + 'b) \<Rightarrow> error + 'b" where
  "bind_e m f = (case m of Inl e \<Rightarrow> Inl e | Inr x \<Rightarrow> f x)"

fun traverse :: "('a \<Rightarrow> error + 'b) \<Rightarrow> 'a list \<Rightarrow> error + 'b list" where
  "traverse f [] = Inr []"
| "traverse f (x # xs) =
     (case f x of Inl e \<Rightarrow> Inl e
      | Inr y \<Rightarrow> (case traverse f xs of Inl e \<Rightarrow> Inl e | Inr ys \<Rightarrow> Inr (y # ys)))"

definition getcol :: "frame \<Rightarrow> string \<Rightarrow> error + column" where
  \<comment> \<open>\<open>df[c]\<close>: raises KeyError when the frame has no column \<open>c\<close>.\<close>
  "getcol df c = (case map_of df c of None \<Rightarrow> Inl (KeyError c) | Some v \<Rightarrow> Inr v)"

fun setcol :: "frame \<Rightarrow> string \<Rightarrow> column \<Rightarrow> frame" where
  \<comment> \<open>\<open>df[c] = v\<close>: replaces the column in place when it exists, appends it otherwise.\<close>
  "setcol [] c v = [(c, v)]"
| "setcol ((k, w) # df) c v = (if k = c then (k, v) # df else (k, w) # setcol df c v)"

definition nrows :: "frame \<Rightarrow> nat" where
  "nrows df = (case df of [] \<Rightarrow> 0 | (k, v) # rest \<Rightarrow> length v)"

definition wf_frame :: "frame \<Rightarrow> bool" where
  \<comment> \<open>All columns of a DataFrame share its index: they have the same length.\<close>
  "wf_frame df = list_all (\<lambda>(k, v). length v = nrows df) df"

definition row_at :: "frame \<Rightarrow> nat \<Rightarrow> row" where
  \<comment> \<open>The row handed to the function of \<open>df.apply(f, axis=1)\<close>: \<open>row[c]\<close> is the cell of
     column \<open>c\<close> in that row.\<close>
  "row_at df i = map_of (map (\<lambda>(k, v). (k, v ! i)) df)"

definition apply_rows :: "(row \<Rightarrow> error + cell) \<Rightarrow> frame \<Rightarrow> error + column" where
  "apply_rows f df = traverse (\<lambda>i. f (row_at df i)) [0..<nrows df]"

subsection \<open>Comparisons on the cells of a row\<close>



definition row_eq :: "row \<Rightarrow> string \<Rightarrow> rat \<Rightarrow> error + bool" where
  "row_eq r c k =
     (case r c of None \<Rightarrow> Inl (KeyError c)
      | Some (Num x) \<Rightarrow> Inr (x = k)
      | Some (Txt s) \<Rightarrow> Inr False
      | Some NA \<Rightarrow> Inr False)"

definition and_also :: "error + bool \<Rightarrow> error + bool \<Rightarrow> error + bool" where
  \<comment> \<open>Python's \<open>a and b\<close>: \<open>b\<close> is evaluated only when \<open>a\<close> is true.\<close>
  "and_also a b = (case a of Inl e \<Rightarrow> Inl e | Inr t \<Rightarrow> (if t then b else Inr False))"

definition if_return :: "error + bool \<Rightarrow> 'a \<Rightarrow> error + 'a \<Rightarrow> error + 'a" where
  \<comment> \<open>\<open>if cond: return v\<close> followed by the rest of the function body.\<close>
  "if_return cond v rest = (case cond of Inl e \<Rightarrow> Inl e | Inr t \<Rightarrow> (if t then Inr v else rest))"

section \<open>Segment naming (01_kmeans_segmentation.py)\<close>




section \<open>Feature preparation (both scripts)\<close>

type_synonym parser = "string \<Rightarrow> rat option"

definition to_numeric :: "parser \<Rightarrow> cell \<Rightarrow> cell" where
  \<comment> \<open>\<open>pd.to_numeric(..., errors="coerce")\<close> on one cell: what does not read as a number
     becomes missing. How a string reads as a number is the parameter \<open>parse\<close>.\<close>
  "to_numeric parse c =
     (case c of Num x \<Rightarrow> Num x
      | Txt s \<Rightarrow> (case parse s of Some x \<Rightarrow> Num x | None \<Rightarrow> NA)
      | NA \<Rightarrow> NA)"

definition fillna :: "cell \<Rightarrow> column \<Rightarrow> column" where
  "fillna v col = map (\<lambda>c. if c = NA then v else c) col"

definition isna_any :: "column \<Rightarrow> bool" where
  "isna_any col = (NA \<in> set col)"

fun nums :: "column \<Rightarrow> rat list" where
  "nums [] = []"
| "nums (Num x # cs) = x # nums cs"
| "nums (c # cs) = nums cs"

definition median :: "column \<Rightarrow> cell" where
  \<comment> \<open>\<open>Series.median()\<close>: over the present numbers; NaN when there is none.\<close>
  "median col =
     (let s = sort (nums col); n = length s in
      if n = 0 then NA
      else if odd n then Num (s ! (n div 2))
      else Num ((s ! (n div 2 - 1) + s ! (n div 2)) / 2))"

fun coerce_numeric :: "parser \<Rightarrow> string list \<Rightarrow> frame \<Rightarrow> error + frame" where
  \<comment> \<open>\<open>for col in cols: df[col] = pd.to_numeric(df[col], errors="coerce")\<close>\<close>
  "coerce_numeric parse [] df = Inr df"
| "coerce_numeric parse (c # cs) df =
     (case getcol df c of Inl e \<Rightarrow> Inl e
      | Inr v \<Rightarrow> coerce_numeric parse cs (setcol df c (map (to_numeric parse) v)))"

fun fill_median :: "string list \<Rightarrow> frame \<Rightarrow> error + frame" where
  \<comment> \<open>\<open>for col in cols: if df[col].isna().any(): df[col] = df[col].fillna(df[col].median())\<close>\<close>
  "fill_median [] df = Inr df"
| "fill_median (c # cs) df =
     (case getcol df c of Inl e \<Rightarrow> Inl e
      | Inr v \<Rightarrow> fill_median cs (if isna_any v then setcol df c (fillna (median v) v) else df))"

fun fill_zero :: "string list \<Rightarrow> frame \<Rightarrow> error + frame" where
  \<comment> \<open>\<open>for c in cols: if df[c].isna().any(): df[c] = df[c].fillna(0)\<close>\<close>
  "fill_zero [] df = Inr df"
| "fill_zero (c # cs) df =
     (case getcol df c of Inl e \<Rightarrow> Inl e
      | Inr v \<Rightarrow> fill_zero cs (if isna_any v then setcol df c (fillna (Num 0) v) else df))"

subsection \<open>clean\_features (01_kmeans_segmentation.py)\<close>

definition FEATURES :: "string list" where
  "FEATURES = [''recency_days'', ''frequency'', ''monetary'', ''avg_order_value'',
     ''avg_items_per_order'', ''avg_category_diversity'', ''tenure_days'',
     ''avg_days_between_orders'']"

definition clustering_features :: "string list" where
  "clustering_features = [''recency_days'', ''frequency'', ''monetary_log'',
     ''avg_order_value_log'', ''avg_items_per_order'', ''avg_category_diversity'',
     ''tenure_days'', ''avg_days_between_orders'']"

definition log_col :: "(rat \<Rightarrow> cell) \<Rightarrow> column \<Rightarrow> column" where
  \<comment> \<open>\<open>np.log1p\<close> over a column; the logarithm itself is the parameter \<open>log1p\<close>.\<close>
  "log_col log1p col = map (\<lambda>c. case c of Num x \<Rightarrow> log1p x | Txt s \<Rightarrow> NA | NA \<Rightarrow> NA) col"

definition clean_features ::
  "parser \<Rightarrow> (rat \<Rightarrow> cell) \<Rightarrow> frame \<Rightarrow> error + frame \<times> string list" where
  \<comment> \<open>The function changes \<open>df\<close> in place and returns that same table.\<close>
  "clean_features parse log1p df =
     bind_e (coerce_numeric parse FEATURES df) (\<lambda>df1.
     bind_e (getcol df1 ''avg_days_between_orders'') (\<lambda>gap.
     bind_e (fill_median FEATURES
               (setcol df1 ''avg_days_between_orders'' (fillna (Num 9999) gap))) (\<lambda>df2.
     bind_e (getcol df2 ''monetary'') (\<lambda>m.
     bind_e (getcol (setcol df2 ''monetary_log'' (log_col log1p m)) ''avg_order_value'') (\<lambda>a.
     Inr (setcol (setcol df2 ''monetary_log'' (log_col log1p m))
            ''avg_order_value_log'' (log_col log1p a),
          clustering_features))))))"

subsection \<open>load\_training\_frame (02_churn_model.py), from the result of read\_sql on\<close>

definition CHURN_THRESHOLD_DAYS :: rat where
  "CHURN_THRESHOLD_DAYS = 180"

definition lifetime_cols :: "string list" where
  "lifetime_cols = [''frequency'', ''monetary'', ''avg_order_value'', ''avg_items_per_order'',
     ''avg_category_diversity'', ''tenure_days'', ''avg_days_between_orders'']"

definition time_cols :: "string list" where
  "time_cols = [''spend_30d'', ''spend_90d'', ''orders_30d'', ''orders_90d'']"

definition churn_label :: "rat \<Rightarrow> column \<Rightarrow> error + column" where
  \<comment> \<open>\<open>(df["recency_days"] >= threshold).astype(int)\<close>; a comparison with NaN is false.\<close>
  "churn_label threshold col =
     traverse (\<lambda>c. case c of Num x \<Rightarrow> Inr (Num (if threshold \<le> x then 1 else 0))
                 | Txt s \<Rightarrow> Inl TypeError
                 | NA \<Rightarrow> Inr (Num 0)) col"

definition load_training_frame :: "parser \<Rightarrow> frame \<Rightarrow> error + frame" where
  "load_training_frame parse df =
     bind_e (coerce_numeric parse (lifetime_cols @ time_cols) df) (\<lambda>df1.
     bind_e (fill_median lifetime_cols df1) (\<lambda>df2.
     bind_e (fill_zero time_cols df2) (\<lambda>df3.
     bind_e (getcol df3 ''avg_days_between_orders'') (\<lambda>gap.
     bind_e (getcol (setcol df3 ''avg_days_between_orders'' (fillna (Num 9999) gap))
               ''recency_days'') (\<lambda>recency.
     bind_e (churn_label CHURN_THRESHOLD_DAYS recency) (\<lambda>churned.
     bind_e (getcol (setcol (setcol df3 ''avg_days_between_orders'' (fillna (Num 9999) gap))
                       ''churned'' churned) ''segment_name'') (\<lambda>seg.
     Inr (setcol (setcol (setcol df3 ''avg_days_between_orders'' (fillna (Num 9999) gap))
                    ''churned'' churned)
            ''segment_name'' (fillna (Txt ''Unknown'') seg)))))))))"

section \<open>Churn model and priority bands (02_churn_model.py)\<close>

subsection \<open>train\_and\_score\<close>

definition feature_cols_num :: "string list" where
  "feature_cols_num = [''frequency'', ''monetary'', ''avg_order_value'', ''avg_items_per_order'',
     ''avg_category_diversity'', ''tenure_days'', ''avg_days_between_orders'',
     ''spend_30d'', ''spend_90d'', ''orders_30d'', ''orders_90d'']"

definition feature_cols_cat :: "string list" where
  "feature_cols_cat = [''segment_name'']"

definition select :: "frame \<Rightarrow> string list \<Rightarrow> error + frame" where
  \<comment> \<open>\<open>df[cols]\<close>: the listed columns, in the order listed; KeyError when one is missing.\<close>
  "select df cols =
     traverse (\<lambda>c. case getcol df c of Inl e \<Rightarrow> Inl e | Inr v \<Rightarrow> Inr (c, v)) cols"

type_synonym learner = "frame \<Rightarrow> column \<Rightarrow> error + column \<times> rat"

definition train_and_score :: "learner \<Rightarrow> frame \<Rightarrow> error + frame \<times> rat" where
  \<comment> \<open>The scikit-learn part (stratified split with a fixed seed, the preprocessing and
     logistic-regression pipeline, its AUC on the held-out rows and \<open>predict_proba\<close> over
     all rows) is the parameter \<open>learn\<close>: from \<open>X\<close> and \<open>y\<close> it gives the scores and the
     AUC, or raises. The result is a copy of \<open>df\<close> with the scores added.\<close>
  "train_and_score learn df =
     bind_e (select df (feature_cols_num @ feature_cols_cat)) (\<lambda>X.
     bind_e (getcol df ''churned'') (\<lambda>y.
     bind_e (learn X y) (\<lambda>(proba, auc).
     Inr (setcol df ''churn_risk'' proba, auc))))"

subsection \<open>pd.qcut into tertiles\<close>

definition interpolate :: "rat list \<Rightarrow> nat \<Rightarrow> rat" where
  \<comment> \<open>Linear interpolation in the sorted values \<open>s\<close> at the position \<open>p / 3\<close>: between the
     entry at the integer part of the position and the next one.\<close>
  "interpolate s p =
     (let lo = p div 3; r = p mod 3 in
      if r = 0 then s ! lo
      else s ! lo + (of_nat r / 3) * (s ! (lo + 1) - s ! lo))"

definition quantile3 :: "rat list \<Rightarrow> nat \<Rightarrow> rat" where
  \<comment> \<open>The quantile \<open>k / 3\<close> of the sorted values \<open>s\<close> (pandas' default, linear): the value
     at the position \<open>k (n - 1) / 3\<close>.\<close>
  "quantile3 s k = interpolate s (k * (length s - 1))"

definition qcut_edges :: "rat list \<Rightarrow> rat list" where
  "qcut_edges xs = map (quantile3 (sort xs)) [0, 1, 2, 3]"

definition bin_id :: "rat list \<Rightarrow> rat \<Rightarrow> nat" where
  \<comment> \<open>The bin of \<open>x\<close>: the number of edges strictly below it (bins are closed on the
     right), and the first bin for the lowest edge itself (\<open>include_lowest\<close>).\<close>
  "bin_id edges x = (if x = hd edges then 1 else length (filter (\<lambda>e. e < x) edges))"

definition band_labels :: "rat list" where
  "band_labels = [3, 2, 1]"

definition is_txt :: "cell \<Rightarrow> bool" where
  "is_txt c = (case c of Txt s \<Rightarrow> True | Num x \<Rightarrow> False | NA \<Rightarrow> False)"

definition qcut3 :: "column \<Rightarrow> error + column" where
  \<comment> \<open>\<open>pd.qcut(col, q=3, labels=[3, 2, 1]).astype(int)\<close>. The edges are the quantiles
     0, 1/3, 2/3, 1 of the present values; qcut raises ValueError when two edges are
     equal, and the cast to int raises when a cell got no bin.\<close>
  "qcut3 col =
     (if list_ex is_txt col then Inl TypeError
      else if nums col = [] \<or> \<not> distinct (qcut_edges (nums col)) then Inl ValueError
      else traverse (\<lambda>c. case c of
               Num x \<Rightarrow> (let b = bin_id (qcut_edges (nums col)) x in
                          if b = 0 \<or> 3 < b then Inl ValueError
                          else Inr (Num (band_labels ! (b - 1))))
             | Txt s \<Rightarrow> Inl TypeError
             | NA \<Rightarrow> Inl ValueError) col)"

subsection \<open>assign\_priority\_band\<close>

definition priority :: "row \<Rightarrow> error + cell" where
  "priority r =
     if_return (and_also (row_eq r ''risk_band'' 1) (row_eq r ''value_band'' 1)) (Txt ''HIGH'')
    (if_return (and_also (row_eq r ''risk_band'' 1) (row_eq r ''value_band'' 2)) (Txt ''MEDIUM'')
    (if_return (and_also (row_eq r ''risk_band'' 2) (row_eq r ''value_band'' 1)) (Txt ''MEDIUM'')
    (Inr (Txt ''LOW''))))"

text \<open>
  The function works on \<open>df.copy()\<close>, so which table object is changed matters. Table
  objects live in a store, a list indexed by address; a table variable is an address.
  The copy is a new object at the end of the store, and each column assignment changes
  that object. When a step raises, the store is left as it is at that point.
\<close>

type_synonym store = "frame list"

definition assign_col :: "store \<Rightarrow> nat \<Rightarrow> string \<Rightarrow> column \<Rightarrow> store" where
  "assign_col st a c v = st[a := setcol (st ! a) c v]"

definition assign_priority_band :: "store \<Rightarrow> nat \<Rightarrow> (error + nat) \<times> store" where
  "assign_priority_band st a =
     (let b = length st; st0 = st @ [st ! a] in
      case bind_e (getcol (st0 ! b) ''churn_risk'') qcut3 of
        Inl e \<Rightarrow> (Inl e, st0)
      | Inr risk_band \<Rightarrow>
          (let st1 = assign_col st0 b ''risk_band'' risk_band in
           case bind_e (getcol (st1 ! b) ''monetary'') qcut3 of
             Inl e \<Rightarrow> (Inl e, st1)
           | Inr value_band \<Rightarrow>
               (let st2 = assign_col st1 b ''value_band'' value_band in
                case apply_rows priority (st2 ! b) of
                  Inl e \<Rightarrow> (Inl e, st2)
                | Inr band \<Rightarrow> (Inr b, assign_col st2 b ''priority_band'' band))))"

subsection \<open>value\_at\_risk (main)\<close>



section \<open>The order of steps in the two main functions\<close>

text \<open>
  Each \<open>main\<close> is a straight line of calls; an exception in one of them ends the run,
  since nothing catches it. A run is described by the steps that completed. Which steps
  raise is decided outside the scripts (the database, the data), so it is a parameter.
  A write that raises is taken to leave its table untouched.
\<close>

datatype step = Connect | Load string | Compute string | Write string

definition main_segmentation :: "step list" where
  "main_segmentation =
     [Connect, Load ''load_rfm'', Compute ''clean_features'', Compute ''scaler.fit_transform'',
      Compute ''choose_k'', Compute ''fit_kmeans'', Compute ''profile_segments'',
      Compute ''name_segments'', Compute ''merge'',
      Write ''customer_segments'', Write ''segment_profile'']"

definition main_churn :: "step list" where
  "main_churn =
     [Connect, Load ''load_training_frame'', Compute ''train_and_score'',
      Compute ''risk_decile'', Compute ''assign_priority_band'', Compute ''value_at_risk'',
      Write ''customer_churn_scores'']"

fun run :: "(step \<Rightarrow> bool) \<Rightarrow> step list \<Rightarrow> step list \<times> bool" where
  \<comment> \<open>The steps that completed, and whether the run reached its end.\<close>
  "run raises [] = ([], True)"
| "run raises (s # ss) =
     (if raises s then ([], False)
      else (case run raises ss of (done, ok) \<Rightarrow> (s # done, ok)))"

fun written :: "step list \<Rightarrow> string list" where
  "written [] = []"
| "written (Write t # ss) = t # written ss"
| "written (s # ss) = written ss"

fun is_compute :: "step \<Rightarrow> bool" where
  "is_compute (Compute f) = True"
| "is_compute s = False"

fun is_write :: "step \<Rightarrow> bool" where
  "is_write (Write t) = True"
| "is_write s = False"

fun computes_before_writes :: "step list \<Rightarrow> bool" where
  \<comment> \<open>No fitting or scoring step completes after a write has.\<close>
  "computes_before_writes [] = True"
| "computes_before_writes (s # ss) =
     ((if is_write s then \<not> list_ex is_compute ss else True) \<and> computes_before_writes ss)"

definition all_or_nothing :: "(step \<Rightarrow> bool) \<Rightarrow> step list \<Rightarrow> bool" where
  \<comment> \<open>The run wrote every output table of the script, or it failed having written none.\<close>
  "all_or_nothing raises prog =
     (case run raises prog of
        (done, ok) \<Rightarrow> (ok \<and> written done = written prog) \<or> (\<not> ok \<and> written done = []))"

section \<open>Predicates used in the statements\<close>

definition band_columns :: "string list" where
  "band_columns = [''risk_band'', ''value_band'', ''priority_band'']"


section \<open>float64 rounding, for the worked value-at-risk example\<close>

text \<open>
  The scripts compute in float64. A positive rational \<open>x\<close> with binary exponent \<open>e\<close>
  (the one that puts \<open>x / 2^e\<close> between \<open>2^52\<close> and \<open>2^53\<close>) rounds to the nearest
  multiple of \<open>2^e\<close>, ties to the even one.
\<close>

definition pow2 :: "int \<Rightarrow> rat" where
  "pow2 e = (if 0 \<le> e then 2 ^ nat e else 1 / 2 ^ nat (- e))"

definition round_half_even :: "rat \<Rightarrow> int" where
  "round_half_even x =
     (let f = \<lfloor>x\<rfloor>; d = x - of_int f in
      if d < 1 / 2 then f else if 1 / 2 < d then f + 1 else if even f then f else f + 1)"

definition binary64_exponent :: "rat \<Rightarrow> int \<Rightarrow> bool" where
  "binary64_exponent x e = (2 ^ 52 \<le> x / pow2 e \<and> x / pow2 e < 2 ^ 53)"

definition binary64_round :: "int \<Rightarrow> rat \<Rightarrow> rat" where
  "binary64_round e x = of_int (round_half_even (x / pow2 e)) * pow2 e"

section \<open>Example tables\<close>



definition example_customers :: frame where
  "example_customers =
     [(''customer_unique_id'', [Txt ''a'', Txt ''b'', Txt ''c'', Txt ''d'']),
      (''frequency'', [Num 3, Num 1, Num 4, Num 2]),
      (''monetary'', [Num 100, Num 40, Num 250, Num 75]),
      (''avg_order_value'', [Num 33, Num 40, Num 62, Num 37]),
      (''avg_items_per_order'', [Num 1, Num 2, Num 1, Num 3]),
      (''avg_category_diversity'', [Num 1, Num 1, Num 2, Num 1]),
      (''tenure_days'', [Num 400, Num 180, Num 700, Num 300]),
      (''avg_days_between_orders'', [Num 10, NA, Num 30, Num 20]),
      (''recency_days'', [Num 50, Num 180, Num 200, Num 179]),
      (''segment_name'', [Txt ''Champions'', NA, Txt ''Loyal Low Spend'', Txt ''New Customers'']),
      (''spend_30d'', [Num 20, NA, NA, Num 5]),
      (''spend_90d'', [Num 60, NA, NA, Num 5]),
      (''spend_180d'', [Num 80, Num 40, NA, Num 75]),
      (''orders_30d'', [Num 1, NA, NA, Num 1]),
      (''orders_90d'', [Num 2, NA, NA, Num 1]),
      (''orders_180d'', [Num 3, Num 1, NA, Num 2]),
      (''recent_order_ratio'', [Num 1, Num 0, Num 0, Num 1]),
      (''recent_spend_ratio'', [Num 1, Num 0, Num 0, Num 1])]"

definition example_training_frame :: frame where
  "example_training_frame =
     [(''customer_unique_id'', [Txt ''a'', Txt ''b'', Txt ''c'', Txt ''d'']),
      (''frequency'', [Num 3, Num 1, Num 4, Num 2]),
      (''monetary'', [Num 100, Num 40, Num 250, Num 75]),
      (''avg_order_value'', [Num 33, Num 40, Num 62, Num 37]),
      (''avg_items_per_order'', [Num 1, Num 2, Num 1, Num 3]),
      (''avg_category_diversity'', [Num 1, Num 1, Num 2, Num 1]),
      (''tenure_days'', [Num 400, Num 180, Num 700, Num 300]),
      (''avg_days_between_orders'', [Num 10, Num 20, Num 30, Num 20]),
      (''recency_days'', [Num 50, Num 180, Num 200, Num 179]),
      (''segment_name'', [Txt ''Champions'', Txt ''Unknown'', Txt ''Loyal Low Spend'',
         Txt ''New Customers'']),
      (''spend_30d'', [Num 20, Num 0, Num 0, Num 5]),
      (''spend_90d'', [Num 60, Num 0, Num 0, Num 5]),
      (''spend_180d'', [Num 80, Num 40, NA, Num 75]),
      (''orders_30d'', [Num 1, Num 0, Num 0, Num 1]),
      (''orders_90d'', [Num 2, Num 0, Num 0, Num 1]),
      (''orders_180d'', [Num 3, Num 1, NA, Num 2]),
      (''recent_order_ratio'', [Num 1, Num 0, Num 0, Num 1]),
      (''recent_spend_ratio'', [Num 1, Num 0, Num 0, Num 1]),
      (''churned'', [Num 0, Num 1, Num 1, Num 0])]"

definition example_scored :: frame where
  "example_scored =
     [(''customer_unique_id'', [Txt ''a'', Txt ''b'', Txt ''c'', Txt ''d'', Txt ''e'', Txt ''f'']),
      (''monetary'', [Num 100, Num 40, Num 250, Num 75, Num 10, Num 300]),
      (''churn_risk'', [Num (3/10), Num (9/10), Num (4/5), Num (1/10), Num (1/2), Num (3/5)])]"

definition example_banded :: frame where
  "example_banded = example_scored @
     [(''risk_band'', [Num 3, Num 1, Num 1, Num 3, Num 2, Num 2]),
      (''value_band'', [Num 2, Num 3, Num 1, Num 2, Num 3, Num 1]),
      (''priority_band'', [Txt ''LOW'', Txt ''LOW'', Txt ''HIGH'', Txt ''LOW'', Txt ''LOW'',
         Txt ''MEDIUM''])]"


definition example_learner :: learner where
  \<comment> \<open>A stand-in for the scikit-learn part: the score is the label, the AUC is 1.\<close>
  "example_learner X y = Inr (y, 1)"

definition example_training_frame_180 :: frame where
  "example_training_frame_180 =
     setcol (setcol example_training_frame ''spend_180d'' [Num 1, Num 2, Num 3, Num 4])
       ''orders_180d'' [NA, NA, Num 7, Num 9]"

definition example_rescored :: frame where
  "example_rescored = example_scored @
     [(''priority_band'', [Txt ''HIGH'', Txt ''HIGH'', Txt ''HIGH'', Txt ''HIGH'', Txt ''HIGH'',
        Txt ''HIGH''])]"

definition example_rebanded :: frame where
  "example_rebanded = example_scored @
     [(''priority_band'', [Txt ''LOW'', Txt ''LOW'', Txt ''HIGH'', Txt ''LOW'', Txt ''LOW'',
         Txt ''MEDIUM'']),
      (''risk_band'', [Num 3, Num 1, Num 1, Num 3, Num 2, Num 2]),
      (''value_band'', [Num 2, Num 3, Num 1, Num 2, Num 3, Num 1])]"


definition example_rfm :: frame where
  "example_rfm =
     [(''customer_unique_id'', [Txt ''a'', Txt ''b'', Txt ''c'', Txt ''d'']),
      (''recency_days'', [Num 50, Num 180, Num 200, Num 179]),
      (''frequency'', [Num 3, Num 1, Num 4, Num 2]),
      (''monetary'', [Num 100, Num 40, Num 250, Num 75]),
      (''avg_order_value'', [Num 33, Num 40, Num 62, Num 37]),
      (''avg_items_per_order'', [Num 1, Num 2, Num 1, Num 3]),
      (''avg_category_diversity'', [Num 1, Num 1, Num 2, Num 1]),
      (''tenure_days'', [Num 10, Num 20, Num 30, Txt ''n/a'']),
      (''avg_days_between_orders'', [Num 10, NA, Num 30, Num 20])]"

definition example_rfm_clean :: frame where
  "example_rfm_clean =
     [(''customer_unique_id'', [Txt ''a'', Txt ''b'', Txt ''c'', Txt ''d'']),
      (''recency_days'', [Num 50, Num 180, Num 200, Num 179]),
      (''frequency'', [Num 3, Num 1, Num 4, Num 2]),
      (''monetary'', [Num 100, Num 40, Num 250, Num 75]),
      (''avg_order_value'', [Num 33, Num 40, Num 62, Num 37]),
      (''avg_items_per_order'', [Num 1, Num 2, Num 1, Num 3]),
      (''avg_category_diversity'', [Num 1, Num 1, Num 2, Num 1]),
      (''tenure_days'', [Num 10, Num 20, Num 30, Num 20]),
      (''avg_days_between_orders'', [Num 10, Num 9999, Num 30, Num 20]),
      (''monetary_log'', [NA, NA, NA, NA]),
      (''avg_order_value_log'', [NA, NA, NA, NA])]"

section \<open>Lemmas on tables\<close>

lemma map_of_setcol: "map_of (setcol df c v) = (map_of df)(c \<mapsto> v)"
  by (induction df c v rule: setcol.induct) (auto simp: fun_eq_iff)

lemma getcol_setcol: "getcol (setcol df c v) c' = (if c' = c then Inr v else getcol df c')"
  by (simp add: getcol_def map_of_setcol)

lemma map_fst_setcol:
  "map fst (setcol df c v) = (if c \<in> fst ` set df then map fst df else map fst df @ [c])"
  by (induction df c v rule: setcol.induct) auto

lemma nrows_setcol: "df \<noteq> [] \<Longrightarrow> length v = nrows df \<Longrightarrow> nrows (setcol df c v) = nrows df"
  by (cases df) (auto simp: nrows_def)

lemma row_at_lookup: "row_at df i c = map_option (\<lambda>v. v ! i) (map_of df c)"
  unfolding row_at_def by (induction df) auto

lemma traverse_length: "traverse f xs = Inr ys \<Longrightarrow> length ys = length xs"
  by (induction xs arbitrary: ys) (auto split: sum.splits)

lemma traverse_nth:
  "traverse f xs = Inr ys \<Longrightarrow> i < length xs \<Longrightarrow> f (xs ! i) = Inr (ys ! i)"
proof (induction xs arbitrary: ys i)
  case Nil
  then show ?case by simp
next
  case (Cons x xs)
  then show ?case by (cases i) (auto split: sum.splits)
qed


lemma apply_rows_length: "apply_rows f df = Inr col \<Longrightarrow> length col = nrows df"
  unfolding apply_rows_def by (drule traverse_length) simp

lemma apply_rows_nth:
  "apply_rows f df = Inr col \<Longrightarrow> i < nrows df \<Longrightarrow> f (row_at df i) = Inr (col ! i)"
  unfolding apply_rows_def by (drule traverse_nth [where i = i]) simp_all

section \<open>Segment naming is decided by the three ranks\<close>







section \<open>The churn label\<close>

lemma coerce_numeric_other:
  "coerce_numeric parse cs df = Inr df' \<Longrightarrow> c \<notin> set cs \<Longrightarrow> getcol df' c = getcol df c"
  by (induction cs arbitrary: df) (auto split: sum.splits simp: getcol_setcol)

lemma fill_median_other:
  "fill_median cs df = Inr df' \<Longrightarrow> c \<notin> set cs \<Longrightarrow> getcol df' c = getcol df c"
  by (induction cs arbitrary: df) (auto split: sum.splits if_splits simp: getcol_setcol)

lemma fill_zero_other:
  "fill_zero cs df = Inr df' \<Longrightarrow> c \<notin> set cs \<Longrightarrow> getcol df' c = getcol df c"
  by (induction cs arbitrary: df) (auto split: sum.splits if_splits simp: getcol_setcol)



lemma load_training_frame_example:
  "load_training_frame (\<lambda>s. None) example_customers = Inr example_training_frame"
  by (simp add: load_training_frame_def example_customers_def example_training_frame_def
      bind_e_def lifetime_cols_def time_cols_def getcol_def to_numeric_def isna_any_def
      fillna_def median_def churn_label_def CHURN_THRESHOLD_DAYS_def)



section \<open>Priority bands\<close>

lemma assign_col_last: "assign_col (st @ [x]) (length st) c v = st @ [setcol x c v]"
  by (simp add: assign_col_def)

lemma assign_priority_band_Inr:
  assumes "fst (assign_priority_band st a) = Inr b"
  shows "\<exists>risk rb mon vb pb.
           b = length st \<and>
           getcol (st ! a) ''churn_risk'' = Inr risk \<and> qcut3 risk = Inr rb \<and>
           getcol (st ! a) ''monetary'' = Inr mon \<and> qcut3 mon = Inr vb \<and>
           apply_rows priority (setcol (setcol (st ! a) ''risk_band'' rb) ''value_band'' vb)
             = Inr pb \<and>
           snd (assign_priority_band st a) =
             st @ [setcol (setcol (setcol (st ! a) ''risk_band'' rb) ''value_band'' vb)
                     ''priority_band'' pb]"
  using assms
  by (auto simp: assign_priority_band_def Let_def assign_col_last bind_e_def getcol_setcol
      split: sum.splits)

lemma qcut3_Inr:
  assumes "qcut3 col = Inr out"
  shows "length out = length col"
    and "i < length col \<Longrightarrow> out ! i = Num 1 \<or> out ! i = Num 2 \<or> out ! i = Num 3"
proof -
  let ?f = "\<lambda>c. case c of
               Num x \<Rightarrow> (let b = bin_id (qcut_edges (nums col)) x in
                          if b = 0 \<or> 3 < b then Inl ValueError
                          else Inr (Num (band_labels ! (b - 1))))
             | Txt s \<Rightarrow> Inl TypeError
             | NA \<Rightarrow> Inl ValueError"
  from assms have tr: "traverse ?f col = Inr out"
    by (simp add: qcut3_def split: if_splits)
  from traverse_length [OF tr] show "length out = length col" .
  assume i: "i < length col"
  from traverse_nth [OF tr i] have "?f (col ! i) = Inr (out ! i)" .
  then obtain b where "0 < b" "b \<le> 3" "out ! i = Num (band_labels ! (b - 1))"
    by (cases "col ! i") (auto simp: Let_def split: if_splits)
  moreover from this have "b = 1 \<or> b = 2 \<or> b = 3" by arith
  ultimately show "out ! i = Num 1 \<or> out ! i = Num 2 \<or> out ! i = Num 3"
    by (auto simp: band_labels_def)
qed

lemma priority_rule:
  "r ''risk_band'' = Some (Num x) \<Longrightarrow> r ''value_band'' = Some (Num y) \<Longrightarrow>
   priority r = Inr (Txt (if x = 1 \<and> y = 1 then ''HIGH''
                          else if (x = 1 \<and> y = 2) \<or> (x = 2 \<and> y = 1) then ''MEDIUM''
                          else ''LOW''))"
  by (simp add: priority_def row_eq_def and_also_def if_return_def)

lemma wf_frame_length: "wf_frame df \<Longrightarrow> getcol df c = Inr v \<Longrightarrow> length v = nrows df"
  by (auto simp: wf_frame_def getcol_def list_all_iff split: option.splits dest!: map_of_SomeD)

lemma getcol_nonempty: "getcol df c = Inr v \<Longrightarrow> df \<noteq> []"
  by (auto simp: getcol_def)

lemma sort_example_risk:
  "sort [3/10, 9/10, 4/5, 1/10, 1/2, 3/5 :: rat] = [1/10, 3/10, 1/2, 3/5, 4/5, 9/10]"
  by simp

lemma sort_example_monetary:
  "sort [100, 40, 250, 75, 10, 300 :: rat] = [10, 40, 75, 100, 250, 300]"
  by simp

lemma qcut3_example_risk:
  "qcut3 [Num (3/10), Num (9/10), Num (4/5), Num (1/10), Num (1/2), Num (3/5)] =
     Inr [Num 3, Num 1, Num 1, Num 3, Num 2, Num 2]"
  by (simp add: qcut3_def is_txt_def qcut_edges_def sort_example_risk quantile3_def interpolate_def
      bin_id_def band_labels_def)

lemma qcut3_example_monetary:
  "qcut3 [Num 100, Num 40, Num 250, Num 75, Num 10, Num 300] =
     Inr [Num 2, Num 3, Num 1, Num 2, Num 3, Num 1]"
  by (simp add: qcut3_def is_txt_def qcut_edges_def sort_example_monetary quantile3_def interpolate_def
      bin_id_def band_labels_def)

lemma assign_priority_band_example:
  "assign_priority_band [example_scored] 0 = (Inr 1, [example_scored, example_banded])"
  by (simp add: assign_priority_band_def Let_def assign_col_def example_scored_def
      example_banded_def getcol_def bind_e_def qcut3_example_risk qcut3_example_monetary apply_rows_def
      nrows_def row_at_def priority_def row_eq_def and_also_def if_return_def upt_rec)

text \<open>
  Claim C6. The priority band of a customer is decided by the pair (risk\_band,
  value\_band) of its row, by the fixed rule (1,1) to HIGH, (1,2) or (2,1) to MEDIUM,
  every other pair to LOW; each row of the table assign\_priority\_band returns carries
  one band, HIGH, MEDIUM or LOW.
\<close>

theorem priority_band_is_rule_of_bands:
  assumes "fst (assign_priority_band st a) = Inr b"
    and "a < length st" and "wf_frame (st ! a)" and "i < nrows (st ! a)"
  shows "\<exists>x y. row_at (snd (assign_priority_band st a) ! b) i ''risk_band'' = Some (Num x) \<and>
               row_at (snd (assign_priority_band st a) ! b) i ''value_band'' = Some (Num y) \<and>
               row_at (snd (assign_priority_band st a) ! b) i ''priority_band'' =
                 Some (Txt (if x = 1 \<and> y = 1 then ''HIGH''
                            else if (x = 1 \<and> y = 2) \<or> (x = 2 \<and> y = 1) then ''MEDIUM''
                            else ''LOW'')) \<and>
               (row_at (snd (assign_priority_band st a) ! b) i ''priority_band'' =
                  Some (Txt ''HIGH'') \<or>
                row_at (snd (assign_priority_band st a) ! b) i ''priority_band'' =
                  Some (Txt ''MEDIUM'') \<or>
                row_at (snd (assign_priority_band st a) ! b) i ''priority_band'' =
                  Some (Txt ''LOW''))"
proof -
  from assign_priority_band_Inr [OF assms(1)] obtain risk rb mon vb pb where
    b: "b = length st" and
    risk: "getcol (st ! a) ''churn_risk'' = Inr risk" "qcut3 risk = Inr rb" and
    mon: "getcol (st ! a) ''monetary'' = Inr mon" "qcut3 mon = Inr vb" and
    pb: "apply_rows priority (setcol (setcol (st ! a) ''risk_band'' rb) ''value_band'' vb)
           = Inr pb" and
    out: "snd (assign_priority_band st a) =
            st @ [setcol (setcol (setcol (st ! a) ''risk_band'' rb) ''value_band'' vb)
                    ''priority_band'' pb]"
    by blast
  let ?df = "st ! a"
  let ?df2 = "setcol (setcol ?df ''risk_band'' rb) ''value_band'' vb"
  let ?out = "setcol ?df2 ''priority_band'' pb"
  have outb: "snd (assign_priority_band st a) ! b = ?out"
    by (simp add: out b)
  have ne: "?df \<noteq> []" using risk(1) by (rule getcol_nonempty)
  have lrb: "length rb = nrows ?df"
    using qcut3_Inr(1) [OF risk(2)] wf_frame_length [OF assms(3) risk(1)] by simp
  have lvb: "length vb = nrows ?df"
    using qcut3_Inr(1) [OF mon(2)] wf_frame_length [OF assms(3) mon(1)] by simp
  have n1: "nrows (setcol ?df ''risk_band'' rb) = nrows ?df"
    using ne lrb by (rule nrows_setcol)
  have n2: "nrows ?df2 = nrows ?df"
    using nrows_setcol [of "setcol ?df ''risk_band'' rb" vb "''value_band''"] ne lvb n1
    by (cases ?df) auto
  have i1: "i < length risk" using assms(4) wf_frame_length [OF assms(3) risk(1)] by simp
  have i2: "i < length mon" using assms(4) wf_frame_length [OF assms(3) mon(1)] by simp
  obtain x where x: "rb ! i = Num x" using qcut3_Inr(2) [OF risk(2) i1] by blast
  obtain y where y: "vb ! i = Num y" using qcut3_Inr(2) [OF mon(2) i2] by blast
  have r2: "row_at ?df2 i ''risk_band'' = Some (Num x)"
    and v2: "row_at ?df2 i ''value_band'' = Some (Num y)"
    using x y by (simp_all add: row_at_lookup map_of_setcol)
  have "i < nrows ?df2" using assms(4) n2 by simp
  from apply_rows_nth [OF pb this] priority_rule [OF r2 v2]
  have p: "pb ! i = Txt (if x = 1 \<and> y = 1 then ''HIGH''
                          else if (x = 1 \<and> y = 2) \<or> (x = 2 \<and> y = 1) then ''MEDIUM''
                          else ''LOW'')"
    by simp
  have "row_at ?out i ''risk_band'' = Some (Num x)"
    and "row_at ?out i ''value_band'' = Some (Num y)"
    and "row_at ?out i ''priority_band'' = Some (pb ! i)"
    using x y by (simp_all add: row_at_lookup map_of_setcol)
  with p outb show ?thesis by auto
qed

theorem priority_band_is_rule_of_bands_witness:
  "fst (assign_priority_band [example_scored] 0) = Inr 1 \<and>
   wf_frame example_scored \<and> 5 < nrows example_scored \<and>
   row_at (snd (assign_priority_band [example_scored] 0) ! 1) 5 ''risk_band'' = Some (Num 2) \<and>
   row_at (snd (assign_priority_band [example_scored] 0) ! 1) 5 ''value_band'' = Some (Num 1) \<and>
   row_at (snd (assign_priority_band [example_scored] 0) ! 1) 5 ''priority_band'' =
     Some (Txt ''MEDIUM'')"
proof -
  let ?out = "snd (assign_priority_band [example_scored] 0) ! 1"
  have r: "fst (assign_priority_band [example_scored] 0) = Inr 1"
    by (simp add: assign_priority_band_example)
  have a: "(0::nat) < length [example_scored]" by simp
  have w: "wf_frame ([example_scored] ! 0)" "wf_frame example_scored"
    by (simp_all add: wf_frame_def nrows_def example_scored_def)
  have n: "5 < nrows ([example_scored] ! 0)" "5 < nrows example_scored"
    by (simp_all add: nrows_def example_scored_def)
  have out: "?out = example_banded"
    by (simp add: assign_priority_band_example)
  have c: "row_at ?out 5 ''risk_band'' = Some (Num 2)"
    "row_at ?out 5 ''value_band'' = Some (Num 1)"
    unfolding out by (simp_all add: row_at_def example_banded_def example_scored_def)
  from priority_band_is_rule_of_bands [OF r a w(1) n(1)] obtain x y where
    "row_at ?out 5 ''risk_band'' = Some (Num x)"
    "row_at ?out 5 ''value_band'' = Some (Num y)"
    "row_at ?out 5 ''priority_band'' =
       Some (Txt (if x = 1 \<and> y = 1 then ''HIGH''
                  else if (x = 1 \<and> y = 2) \<or> (x = 2 \<and> y = 1) then ''MEDIUM''
                  else ''LOW''))"
    by blast
  with c have "row_at ?out 5 ''priority_band'' = Some (Txt ''MEDIUM'')"
    by simp
  with r w(2) n(2) c show ?thesis by blast
qed

section \<open>Value at risk\<close>





text \<open>
  The same example in float64. The double nearest to 0.3 has exponent -54 and is
  5404319552844595 / 2^54; its exact product with 100 has exponent -48 and rounds to 30:
  the float product is 30.0 exactly.
\<close>

theorem value_at_risk_example_in_binary64:
  "binary64_exponent (3 / 10) (- 54) \<and>
   binary64_round (- 54) (3 / 10) = 5404319552844595 / 2 ^ 54 \<and>
   binary64_exponent (100 * binary64_round (- 54) (3 / 10)) (- 48) \<and>
   binary64_round (- 48) (100 * binary64_round (- 54) (3 / 10)) = 30"
  by code_simp

section \<open>What feature preparation does to each column\<close>

lemma coerce_numeric_col:
  "distinct cs \<Longrightarrow> c \<in> set cs \<Longrightarrow> coerce_numeric parse cs df = Inr df' \<Longrightarrow>
   getcol df c = Inr v \<Longrightarrow> getcol df' c = Inr (map (to_numeric parse) v)"
proof (induction cs arbitrary: df)
  case Nil
  then show ?case by simp
next
  case (Cons c0 cs)
  from Cons.prems(3) obtain w where
    w: "getcol df c0 = Inr w" and
    rest: "coerce_numeric parse cs (setcol df c0 (map (to_numeric parse) w)) = Inr df'"
    by (auto split: sum.splits)
  show ?case
  proof (cases "c = c0")
    case True
    with Cons.prems(1) have "c \<notin> set cs" by simp
    from coerce_numeric_other [OF rest this] True w Cons.prems(4)
    show ?thesis by (simp add: getcol_setcol)
  next
    case False
    with Cons.prems have "c \<in> set cs" "distinct cs"
      "getcol (setcol df c0 (map (to_numeric parse) w)) c = Inr v"
      by (simp_all add: getcol_setcol)
    with Cons.IH rest show ?thesis by blast
  qed
qed

lemma fillna_complete: "\<not> isna_any v \<Longrightarrow> fillna x v = v"
  unfolding fillna_def isna_any_def by (rule map_idI) auto

lemma fill_median_col:
  "distinct cs \<Longrightarrow> c \<in> set cs \<Longrightarrow> fill_median cs df = Inr df' \<Longrightarrow>
   getcol df c = Inr v \<Longrightarrow> getcol df' c = Inr (fillna (median v) v)"
proof (induction cs arbitrary: df)
  case Nil
  then show ?case by simp
next
  case (Cons c0 cs)
  let ?df1 = "\<lambda>w. if isna_any w then setcol df c0 (fillna (median w) w) else df"
  from Cons.prems(3) obtain w where
    w: "getcol df c0 = Inr w" and rest: "fill_median cs (?df1 w) = Inr df'"
    by (auto split: sum.splits)
  show ?case
  proof (cases "c = c0")
    case True
    with Cons.prems(1) have "c \<notin> set cs" by simp
    from fill_median_other [OF rest this] True w Cons.prems(4)
    show ?thesis by (simp add: getcol_setcol fillna_complete)
  next
    case False
    with Cons.prems have "c \<in> set cs" "distinct cs" "getcol (?df1 w) c = Inr v"
      by (simp_all add: getcol_setcol)
    with Cons.IH rest show ?thesis by blast
  qed
qed

lemma fillna_sentinel_complete: "\<not> isna_any (fillna (Num 9999) v)"
  by (auto simp: fillna_def isna_any_def)

lemma coerce_numeric_missing:
  "c \<in> set cs \<Longrightarrow> map_of df c = None \<Longrightarrow>
   \<exists>c'. coerce_numeric parse cs df = Inl (KeyError c') \<and> c' \<in> set cs \<and> map_of df c' = None"
proof (induction cs arbitrary: df)
  case Nil
  then show ?case by simp
next
  case (Cons c0 cs)
  show ?case
  proof (cases "map_of df c0")
    case None
    then show ?thesis by (simp add: getcol_def)
  next
    case (Some w)
    with Cons.prems have c: "c \<in> set cs" and "c \<noteq> c0" by auto
    then have "map_of (setcol df c0 (map (to_numeric parse) w)) c = None"
      using Cons.prems(2) by (simp add: map_of_setcol)
    from Cons.IH [OF c this] obtain c' where
      c': "coerce_numeric parse cs (setcol df c0 (map (to_numeric parse) w)) = Inl (KeyError c')"
        "c' \<in> set cs" "map_of (setcol df c0 (map (to_numeric parse) w)) c' = None"
      by blast
    from c'(3) have "map_of df c' = None"
      by (simp add: map_of_setcol split: if_splits)
    with c'(1,2) Some show ?thesis by (simp add: getcol_def)
  qed
qed

lemma distinct_FEATURES: "distinct FEATURES"
  by (simp add: FEATURES_def)

lemma clean_features_steps:
  assumes "clean_features parse log1p df = Inr (out, feats)"
  obtains df1 gap df2 m a where
    "coerce_numeric parse FEATURES df = Inr df1"
    "getcol df1 ''avg_days_between_orders'' = Inr gap"
    "fill_median FEATURES (setcol df1 ''avg_days_between_orders'' (fillna (Num 9999) gap))
       = Inr df2"
    "out = setcol (setcol df2 ''monetary_log'' (log_col log1p m))
             ''avg_order_value_log'' (log_col log1p a)"
  using assms by (auto simp: clean_features_def bind_e_def split: sum.splits)

lemma sort_10_20_30: "sort [10, 20, 30 :: rat] = [10, 20, 30]"
  by simp

lemma clean_features_example:
  "clean_features (\<lambda>s. None) (\<lambda>x. NA) example_rfm = Inr (example_rfm_clean, clustering_features)"
  by (simp add: clean_features_def example_rfm_def example_rfm_clean_def bind_e_def
      FEATURES_def getcol_def to_numeric_def isna_any_def fillna_def median_def log_col_def)

text \<open>
  After clean\_features the column avg\_days\_between\_orders is the coerced input column
  with every missing entry replaced by 9999; the median plays no part in it.
\<close>

theorem clean_features_sentinel:
  assumes "clean_features parse log1p df = Inr (out, feats)"
    and "getcol df ''avg_days_between_orders'' = Inr gap"
  shows "getcol out ''avg_days_between_orders'' =
           Inr (fillna (Num 9999) (map (to_numeric parse) gap))"
proof -
  from assms(1) obtain df1 gap1 df2 m a where
    s1: "coerce_numeric parse FEATURES df = Inr df1" and
    s2: "getcol df1 ''avg_days_between_orders'' = Inr gap1" and
    s3: "fill_median FEATURES (setcol df1 ''avg_days_between_orders'' (fillna (Num 9999) gap1))
           = Inr df2" and
    s4: "out = setcol (setcol df2 ''monetary_log'' (log_col log1p m))
                 ''avg_order_value_log'' (log_col log1p a)"
    by (rule clean_features_steps)
  have f: "''avg_days_between_orders'' \<in> set FEATURES" by (simp add: FEATURES_def)
  from coerce_numeric_col [OF distinct_FEATURES f s1 assms(2)] s2
  have gap1: "gap1 = map (to_numeric parse) gap" by simp
  have "getcol df2 ''avg_days_between_orders'' =
          Inr (fillna (median (fillna (Num 9999) gap1)) (fillna (Num 9999) gap1))"
    by (rule fill_median_col [OF distinct_FEATURES f s3]) (simp add: getcol_setcol)
  then show ?thesis
    by (simp add: s4 getcol_setcol gap1 fillna_complete fillna_sentinel_complete)
qed

theorem clean_features_sentinel_witness:
  "clean_features (\<lambda>s. None) (\<lambda>x. NA) example_rfm = Inr (example_rfm_clean, clustering_features) \<and>
   getcol example_rfm ''avg_days_between_orders'' = Inr [Num 10, NA, Num 30, Num 20] \<and>
   getcol example_rfm_clean ''avg_days_between_orders'' = Inr [Num 10, Num 9999, Num 30, Num 20]"
proof -
  have g: "getcol example_rfm ''avg_days_between_orders'' = Inr [Num 10, NA, Num 30, Num 20]"
    by (simp add: getcol_def example_rfm_def)
  from clean_features_sentinel [OF clean_features_example g]
  have "getcol example_rfm_clean ''avg_days_between_orders'' =
          Inr [Num 10, Num 9999, Num 30, Num 20]"
    by (simp add: fillna_def to_numeric_def)
  with clean_features_example g show ?thesis by simp
qed

text \<open>
  Every other feature column comes out of clean\_features as the coerced input column with
  its missing entries replaced by the median of its present ones. For the values 10, 20,
  30 and one missing entry the imputed value is 20.
\<close>

theorem clean_features_median:
  assumes "clean_features parse log1p df = Inr (out, feats)"
    and "c \<in> set FEATURES" and "c \<noteq> ''avg_days_between_orders''"
    and "getcol df c = Inr v"
  shows "getcol out c =
           Inr (fillna (median (map (to_numeric parse) v)) (map (to_numeric parse) v)) \<and>
         fillna (median [Num 10, Num 20, Num 30, NA]) [Num 10, Num 20, Num 30, NA] =
           [Num 10, Num 20, Num 30, Num 20]"
proof -
  from assms(1) obtain df1 gap1 df2 m a where
    s1: "coerce_numeric parse FEATURES df = Inr df1" and
    s3: "fill_median FEATURES (setcol df1 ''avg_days_between_orders'' (fillna (Num 9999) gap1))
           = Inr df2" and
    s4: "out = setcol (setcol df2 ''monetary_log'' (log_col log1p m))
                 ''avg_order_value_log'' (log_col log1p a)"
    by (rule clean_features_steps)
  have c1: "getcol df1 c = Inr (map (to_numeric parse) v)"
    by (rule coerce_numeric_col [OF distinct_FEATURES assms(2) s1 assms(4)])
  have "getcol df2 c =
          Inr (fillna (median (map (to_numeric parse) v)) (map (to_numeric parse) v))"
    by (rule fill_median_col [OF distinct_FEATURES assms(2) s3])
      (simp add: getcol_setcol assms(3) c1)
  moreover have "c \<noteq> ''monetary_log''" "c \<noteq> ''avg_order_value_log''"
    using assms(2) by (auto simp: FEATURES_def)
  moreover have "fillna (median [Num 10, Num 20, Num 30, NA]) [Num 10, Num 20, Num 30, NA] =
           [Num 10, Num 20, Num 30, Num 20]"
    by (simp add: fillna_def median_def sort_10_20_30)
  ultimately show ?thesis by (simp add: s4 getcol_setcol)
qed

theorem clean_features_median_witness:
  "clean_features (\<lambda>s. None) (\<lambda>x. NA) example_rfm = Inr (example_rfm_clean, clustering_features) \<and>
   getcol example_rfm ''tenure_days'' = Inr [Num 10, Num 20, Num 30, Txt ''n/a''] \<and>
   getcol example_rfm_clean ''tenure_days'' = Inr [Num 10, Num 20, Num 30, Num 20]"
proof -
  have g: "getcol example_rfm ''tenure_days'' = Inr [Num 10, Num 20, Num 30, Txt ''n/a'']"
    by (simp add: getcol_def example_rfm_def)
  have f: "''tenure_days'' \<in> set FEATURES" by (simp add: FEATURES_def)
  have n: "''tenure_days'' \<noteq> ''avg_days_between_orders''" by simp
  from clean_features_median [OF clean_features_example f n g]
  have "getcol example_rfm_clean ''tenure_days'' = Inr [Num 10, Num 20, Num 30, Num 20]"
    by (simp add: fillna_def to_numeric_def median_def sort_10_20_30)
  with clean_features_example g show ?thesis by simp
qed

text \<open>
  A feature column missing from the input table makes clean\_features raise KeyError for a
  missing feature column, in the coercion loop: nothing is returned.
\<close>

theorem clean_features_missing_column:
  assumes "c \<in> set FEATURES" and "map_of df c = None"
  shows "\<exists>c'. clean_features parse log1p df = Inl (KeyError c') \<and> c' \<in> set FEATURES \<and>
              map_of df c' = None"
proof -
  from coerce_numeric_missing [OF assms] obtain c' where
    "coerce_numeric parse FEATURES df = Inl (KeyError c')" "c' \<in> set FEATURES"
    "map_of df c' = None"
    by blast
  then show ?thesis by (auto simp: clean_features_def bind_e_def)
qed

theorem clean_features_missing_column_witness:
  "''tenure_days'' \<in> set FEATURES \<and> map_of [(''recency_days'', [Num 5])] ''tenure_days'' = None \<and>
   clean_features (\<lambda>s. None) (\<lambda>x. NA) [(''recency_days'', [Num 5])] = Inl (KeyError ''frequency'')"
proof -
  have f: "''tenure_days'' \<in> set FEATURES" by (simp add: FEATURES_def)
  have m: "map_of [(''recency_days'', [Num 5 :: cell])] ''tenure_days'' = None" by simp
  from clean_features_missing_column [OF f m, of "\<lambda>s. None" "\<lambda>x. NA"]
  have "\<exists>c'. clean_features (\<lambda>s. None) (\<lambda>x. NA) [(''recency_days'', [Num 5])] = Inl (KeyError c')"
    by auto
  moreover have "clean_features (\<lambda>s. None) (\<lambda>x. NA) [(''recency_days'', [Num 5])] =
      Inl (KeyError ''frequency'')"
    by (simp add: clean_features_def bind_e_def FEATURES_def getcol_def)
  ultimately show ?thesis using f m by simp
qed

lemma median_present: "nums v \<noteq> [] \<Longrightarrow> median v \<noteq> NA"
  by (simp add: median_def Let_def del: length_0_conv)

lemma fillna_present_complete: "x \<noteq> NA \<Longrightarrow> \<not> isna_any (fillna x v)"
  by (auto simp: fillna_def isna_any_def)

text \<open>
  After load\_training\_frame the column avg\_days\_between\_orders is the coerced input
  column with its missing entries replaced by the column median; 9999 is used only for
  what the median left missing, that is when the column has no value at all. With one
  value present the median exists, and every missing entry gets it.
\<close>

theorem load_training_frame_gap:
  assumes "load_training_frame parse df = Inr out"
    and "getcol df ''avg_days_between_orders'' = Inr gap"
  shows "getcol out ''avg_days_between_orders'' =
           Inr (fillna (Num 9999)
                  (fillna (median (map (to_numeric parse) gap)) (map (to_numeric parse) gap))) \<and>
         (nums (map (to_numeric parse) gap) \<noteq> [] \<longrightarrow>
            getcol out ''avg_days_between_orders'' =
              Inr (fillna (median (map (to_numeric parse) gap)) (map (to_numeric parse) gap)))"
proof -
  let ?w = "map (to_numeric parse) gap"
  from assms(1) obtain df1 df2 df3 gap3 lab seg where
    s1: "coerce_numeric parse (lifetime_cols @ time_cols) df = Inr df1" and
    s2: "fill_median lifetime_cols df1 = Inr df2" and
    s3: "fill_zero time_cols df2 = Inr df3" and
    s4: "getcol df3 ''avg_days_between_orders'' = Inr gap3" and
    s5: "out = setcol (setcol (setcol df3 ''avg_days_between_orders'' (fillna (Num 9999) gap3))
                 ''churned'' lab) ''segment_name'' (fillna (Txt ''Unknown'') seg)"
    by (auto simp: load_training_frame_def bind_e_def split: sum.splits)
  have d1: "distinct (lifetime_cols @ time_cols)" and d2: "distinct lifetime_cols"
    by (simp_all add: lifetime_cols_def time_cols_def)
  have m1: "''avg_days_between_orders'' \<in> set (lifetime_cols @ time_cols)"
    and m2: "''avg_days_between_orders'' \<in> set lifetime_cols"
    and m3: "''avg_days_between_orders'' \<notin> set time_cols"
    by (simp_all add: lifetime_cols_def time_cols_def)
  have "getcol df1 ''avg_days_between_orders'' = Inr ?w"
    by (rule coerce_numeric_col [OF d1 m1 s1 assms(2)])
  then have "getcol df2 ''avg_days_between_orders'' = Inr (fillna (median ?w) ?w)"
    by (rule fill_median_col [OF d2 m2 s2])
  with fill_zero_other [OF s3 m3] s4 have gap3: "gap3 = fillna (median ?w) ?w"
    by simp
  have out: "getcol out ''avg_days_between_orders'' = Inr (fillna (Num 9999) gap3)"
    by (simp add: s5 getcol_setcol)
  have "fillna (Num 9999) gap3 = gap3" if "nums ?w \<noteq> []"
  proof -
    from median_present [OF that] have "median ?w \<noteq> NA" .
    then have "\<not> isna_any gap3" unfolding gap3 by (rule fillna_present_complete)
    then show ?thesis by (rule fillna_complete)
  qed
  with out gap3 show ?thesis by simp
qed

theorem load_training_frame_gap_witness:
  "load_training_frame (\<lambda>s. None) example_customers = Inr example_training_frame \<and>
   getcol example_customers ''avg_days_between_orders'' = Inr [Num 10, NA, Num 30, Num 20] \<and>
   nums (map (to_numeric (\<lambda>s. None)) [Num 10, NA, Num 30, Num 20]) \<noteq> [] \<and>
   getcol example_training_frame ''avg_days_between_orders'' =
     Inr (fillna (median [Num 10, NA, Num 30, Num 20]) [Num 10, NA, Num 30, Num 20])"
proof -
  have g: "getcol example_customers ''avg_days_between_orders'' = Inr [Num 10, NA, Num 30, Num 20]"
    by (simp add: getcol_def example_customers_def)
  have n: "nums (map (to_numeric (\<lambda>s. None)) [Num 10, NA, Num 30, Num 20]) \<noteq> []"
    by (simp add: to_numeric_def)
  from load_training_frame_gap [OF load_training_frame_example g, THEN conjunct2] n
  have "getcol example_training_frame ''avg_days_between_orders'' =
     Inr (fillna (median [Num 10, NA, Num 30, Num 20]) [Num 10, NA, Num 30, Num 20])"
    by (simp add: to_numeric_def)
  with load_training_frame_example g n show ?thesis by simp
qed

section \<open>The sentinel for one-time buyers in the churn script\<close>

text \<open>
  Claim C1. After cleaning, a missing avg\_days\_between\_orders is the sentinel 9999,
  never the column median. clean\_features does that; load\_training\_frame does not: its
  median loop runs over avg\_days\_between\_orders too and runs first, so the later
  \<open>fillna(9999)\<close> finds nothing to fill. On the example table, whose single missing gap
  stands beside the gaps 10, 30 and 20, the cleaned cell is the median 20.
\<close>

theorem load_training_frame_gap_is_median:
  "bind_e (load_training_frame (\<lambda>s. None) example_customers)
     (\<lambda>out. getcol out ''avg_days_between_orders'') =
   Inr [Num 10, Num 20, Num 30, Num 20] \<and>
   getcol example_customers ''avg_days_between_orders'' = Inr [Num 10, NA, Num 30, Num 20]"
  by (simp add: load_training_frame_example bind_e_def)
    (simp add: getcol_def example_training_frame_def example_customers_def)

section \<open>Writes come last, one table after the other\<close>

text \<open>
  As claim C4 states it, a run of either script writes all its output tables or none.
  The segmentation script issues two writes in a row, with no transaction around them:
  when the second raises, customer\_segments has been replaced and segment\_profile has
  not.
\<close>

theorem main_segmentation_partial_write:
  "\<not> all_or_nothing (\<lambda>s. s = Write ''segment_profile'') main_segmentation"
  by (simp add: all_or_nothing_def main_segmentation_def)

text \<open>
  Claim C4, amended. In every run of either script no fitting or scoring step completes
  after a write. The churn script issues one write, as its last step: its run writes
  customer\_churn\_scores or nothing. The segmentation script writes customer\_segments
  and then segment\_profile as its last two steps: a run that reaches its end has written
  both; a run that fails has written nothing, or customer\_segments alone, the latter
  when the write of segment\_profile raised.
\<close>

theorem main_writes_after_computing:
  "computes_before_writes (fst (run raises main_segmentation)) \<and>
   computes_before_writes (fst (run raises main_churn)) \<and>
   all_or_nothing raises main_churn \<and>
   written main_churn = [''customer_churn_scores''] \<and>
   (case run raises main_segmentation of
      (done, ok) \<Rightarrow>
        (ok \<and> written done = [''customer_segments'', ''segment_profile'']) \<or>
        (\<not> ok \<and> written done = [''customer_segments''] \<and> raises (Write ''segment_profile'')) \<or>
        (\<not> ok \<and> written done = []))"
proof -
  have "computes_before_writes (fst (run raises main_segmentation))"
    by (simp add: main_segmentation_def)
  moreover have "computes_before_writes (fst (run raises main_churn))"
    by (simp add: main_churn_def)
  moreover have "all_or_nothing raises main_churn"
    by (simp add: all_or_nothing_def main_churn_def)
  moreover have "written main_churn = [''customer_churn_scores'']"
    by (simp add: main_churn_def)
  moreover have "case run raises main_segmentation of
      (done, ok) \<Rightarrow>
        (ok \<and> written done = [''customer_segments'', ''segment_profile'']) \<or>
        (\<not> ok \<and> written done = [''customer_segments''] \<and> raises (Write ''segment_profile'')) \<or>
        (\<not> ok \<and> written done = [])"
    by (simp add: main_segmentation_def)
  ultimately show ?thesis by blast
qed

theorem main_writes_after_computing_witness:
  "run (\<lambda>s. False) main_segmentation = (main_segmentation, True) \<and>
   computes_before_writes (fst (run (\<lambda>s. False) main_segmentation)) \<and>
   all_or_nothing (\<lambda>s. s = Compute ''train_and_score'') main_churn \<and>
   written (fst (run (\<lambda>s. s = Compute ''train_and_score'') main_churn)) = []"
proof -
  have "run (\<lambda>s. False) main_segmentation = (main_segmentation, True)"
    by (simp add: main_segmentation_def)
  moreover have "written (fst (run (\<lambda>s. s = Compute ''train_and_score'') main_churn)) = []"
    by (simp add: main_churn_def)
  ultimately show ?thesis
    using main_writes_after_computing [of "\<lambda>s. False"]
      main_writes_after_computing [of "\<lambda>s. s = Compute ''train_and_score''"]
    by blast
qed

section \<open>The 180-day columns do not reach the model\<close>

lemma traverse_cong:
  "(\<And>x. x \<in> set xs \<Longrightarrow> f x = g x) \<Longrightarrow> traverse f xs = traverse g xs"
  by (induction xs) (simp_all split: sum.splits)

lemma select_cong:
  "(\<And>c. c \<in> set cols \<Longrightarrow> getcol df c = getcol df' c) \<Longrightarrow> select df cols = select df' cols"
  unfolding select_def by (rule traverse_cong) simp

lemma train_and_score_scores:
  "bind_e (train_and_score learn df) (\<lambda>(out, auc). getcol out ''churn_risk'') =
   bind_e (select df (feature_cols_num @ feature_cols_cat)) (\<lambda>X.
   bind_e (getcol df ''churned'') (\<lambda>y.
   bind_e (learn X y) (\<lambda>(proba, auc). Inr proba)))"
  by (simp add: train_and_score_def bind_e_def getcol_setcol split: sum.splits prod.splits)

text \<open>
  Claim C9. train\_and\_score hands the model the lifetime columns, the 30-day and 90-day
  columns and segment\_name only. Two tables that agree on every column but spend\_180d
  and orders\_180d get the same churn\_risk scores (and the same exception when the call
  raises), whatever the scikit-learn part computes from its inputs.
\<close>

theorem churn_risk_ignores_180d:
  assumes "\<forall>c. c \<noteq> ''spend_180d'' \<and> c \<noteq> ''orders_180d'' \<longrightarrow> getcol df c = getcol df' c"
  shows "bind_e (train_and_score learn df) (\<lambda>(out, auc). getcol out ''churn_risk'') =
         bind_e (train_and_score learn df') (\<lambda>(out, auc). getcol out ''churn_risk'')"
proof -
  have sel: "select df (feature_cols_num @ feature_cols_cat) =
        select df' (feature_cols_num @ feature_cols_cat)"
  proof (rule select_cong)
    fix c
    assume "c \<in> set (feature_cols_num @ feature_cols_cat)"
    then have "c \<noteq> ''spend_180d'' \<and> c \<noteq> ''orders_180d''"
      by (auto simp: feature_cols_num_def feature_cols_cat_def)
    then show "getcol df c = getcol df' c" by (rule assms [rule_format])
  qed
  have "''churned'' \<noteq> ''spend_180d'' \<and> ''churned'' \<noteq> ''orders_180d''" by simp
  then have y: "getcol df ''churned'' = getcol df' ''churned''" by (rule assms [rule_format])
  show ?thesis
    by (simp add: train_and_score_scores sel y)
qed

lemma example_scores:
  "bind_e (train_and_score example_learner example_training_frame)
     (\<lambda>(out, auc). getcol out ''churn_risk'') = Inr [Num 0, Num 1, Num 1, Num 0]"
  by (subst train_and_score_scores)
    (simp add: select_def feature_cols_num_def feature_cols_cat_def example_learner_def
      bind_e_def getcol_def example_training_frame_def)

theorem churn_risk_ignores_180d_witness:
  "getcol example_training_frame ''spend_180d'' \<noteq>
     getcol example_training_frame_180 ''spend_180d'' \<and>
   bind_e (train_and_score example_learner example_training_frame)
     (\<lambda>(out, auc). getcol out ''churn_risk'') = Inr [Num 0, Num 1, Num 1, Num 0] \<and>
   bind_e (train_and_score example_learner example_training_frame_180)
     (\<lambda>(out, auc). getcol out ''churn_risk'') = Inr [Num 0, Num 1, Num 1, Num 0]"
proof -
  have agree: "\<forall>c. c \<noteq> ''spend_180d'' \<and> c \<noteq> ''orders_180d'' \<longrightarrow>
      getcol example_training_frame c = getcol example_training_frame_180 c"
    by (simp add: example_training_frame_180_def getcol_setcol)
  have differ: "getcol example_training_frame ''spend_180d'' \<noteq>
     getcol example_training_frame_180 ''spend_180d''"
    by (simp add: example_training_frame_180_def getcol_setcol)
      (simp add: getcol_def example_training_frame_def)
  from churn_risk_ignores_180d [OF agree, of example_learner] example_scores
  have "bind_e (train_and_score example_learner example_training_frame_180)
     (\<lambda>(out, auc). getcol out ''churn_risk'') = Inr [Num 0, Num 1, Num 1, Num 0]"
    by simp
  with differ example_scores show ?thesis by simp
qed

text \<open>
  train\_and\_score catches nothing: when the scikit-learn part raises on the feature table
  and label built from \<open>df\<close>, train\_and\_score raises the same exception and returns no
  table; and a run of the churn script in which train\_and\_score raises writes nothing.
\<close>

theorem train_and_score_propagates:
  assumes "select df (feature_cols_num @ feature_cols_cat) = Inr X"
    and "getcol df ''churned'' = Inr y" and "learn X y = Inl e"
  shows "train_and_score learn df = Inl e \<and>
         (raises (Compute ''train_and_score'') \<longrightarrow>
            written (fst (run raises main_churn)) = [] \<and> \<not> snd (run raises main_churn))"
  using assms by (simp add: train_and_score_def bind_e_def main_churn_def)

theorem train_and_score_propagates_witness:
  "getcol example_training_frame ''churned'' = Inr [Num 0, Num 1, Num 1, Num 0] \<and>
   (\<exists>X. select example_training_frame (feature_cols_num @ feature_cols_cat) = Inr X) \<and>
   train_and_score (\<lambda>X y. Inl ValueError) example_training_frame = Inl ValueError \<and>
   written (fst (run (\<lambda>s. s = Compute ''train_and_score'') main_churn)) = []"
proof -
  have y: "getcol example_training_frame ''churned'' = Inr [Num 0, Num 1, Num 1, Num 0]"
    by (simp add: getcol_def example_training_frame_def)
  obtain X where X: "select example_training_frame (feature_cols_num @ feature_cols_cat) = Inr X"
    by (simp add: select_def feature_cols_num_def feature_cols_cat_def getcol_def
        example_training_frame_def)
  have l: "(\<lambda>X y. Inl ValueError :: error + column \<times> rat) X [Num 0, Num 1, Num 1, Num 0]
             = Inl ValueError"
    by simp
  from train_and_score_propagates [OF X y l, of "\<lambda>s. s = Compute ''train_and_score''"]
  have "train_and_score (\<lambda>X y. Inl ValueError) example_training_frame = Inl ValueError"
    and "written (fst (run (\<lambda>s. s = Compute ''train_and_score'') main_churn)) = []"
    by simp_all
  with y X show ?thesis by auto
qed

section \<open>assign\_priority\_band leaves its input alone\<close>

lemma assign_priority_band_keeps_store:
  "k < length st \<Longrightarrow> snd (assign_priority_band st a) ! k = st ! k"
  by (simp add: assign_priority_band_def Let_def assign_col_last nth_append
      split: sum.splits)

lemma names_setcol: "fst ` set (setcol df c v) = insert c (fst ` set df)"
  by (induction df c v rule: setcol.induct) auto

lemma filter_names_setcol:
  "\<not> P c \<Longrightarrow> filter P (map fst (setcol df c v)) = filter P (map fst df)"
  by (simp add: map_fst_setcol)

lemma assign_priority_band_example_rescored:
  "assign_priority_band [example_rescored] 0 = (Inr 1, [example_rescored, example_rebanded])"
  by (simp add: assign_priority_band_def Let_def assign_col_def example_scored_def
      example_rescored_def example_rebanded_def getcol_def bind_e_def qcut3_example_risk
      qcut3_example_monetary apply_rows_def nrows_def row_at_def priority_def row_eq_def
      and_also_def if_return_def upt_rec)

text \<open>
  As claim C10 states it, every column the input table has is unchanged in the table
  returned. A column the input already has under the name priority\_band (or risk\_band,
  value\_band) is replaced: here the input carries HIGH in every row.
\<close>

theorem assign_priority_band_replaces_band_column:
  "fst (assign_priority_band [example_rescored] 0) = Inr 1 \<and>
   getcol example_rescored ''priority_band'' =
     Inr [Txt ''HIGH'', Txt ''HIGH'', Txt ''HIGH'', Txt ''HIGH'', Txt ''HIGH'', Txt ''HIGH''] \<and>
   getcol (snd (assign_priority_band [example_rescored] 0) ! 1) ''priority_band'' =
     Inr [Txt ''LOW'', Txt ''LOW'', Txt ''HIGH'', Txt ''LOW'', Txt ''LOW'', Txt ''MEDIUM'']"
  by (simp add: assign_priority_band_example_rescored)
    (simp add: getcol_def example_rescored_def example_rebanded_def example_scored_def)

text \<open>
  Claim C10, amended. assign\_priority\_band changes no table object that exists when it is
  called, the caller's input among them, whether it returns or raises. When it returns,
  the result is a new table object in which every column of the input not named
  risk\_band, value\_band or priority\_band has the cells it had, in the same row order, and
  these columns keep their order; the columns of the result are those of the input and the
  three band columns; when the input has none of the three names, they are appended, in
  this order, after the input's columns.
\<close>

theorem assign_priority_band_frame:
  "(\<forall>k < length st. snd (assign_priority_band st a) ! k = st ! k) \<and>
   (\<forall>b. fst (assign_priority_band st a) = Inr b \<longrightarrow>
      b = length st \<and>
      length (snd (assign_priority_band st a)) = length st + 1 \<and>
      (\<forall>c. c \<notin> set band_columns \<longrightarrow>
         getcol (snd (assign_priority_band st a) ! b) c = getcol (st ! a) c) \<and>
      filter (\<lambda>c. c \<notin> set band_columns) (map fst (snd (assign_priority_band st a) ! b)) =
        filter (\<lambda>c. c \<notin> set band_columns) (map fst (st ! a)) \<and>
      fst ` set (snd (assign_priority_band st a) ! b) =
        fst ` set (st ! a) \<union> set band_columns \<and>
      (set band_columns \<inter> fst ` set (st ! a) = {} \<longrightarrow>
         map fst (snd (assign_priority_band st a) ! b) = map fst (st ! a) @ band_columns))"
proof (intro conjI allI impI)
  fix k assume "k < length st"
  then show "snd (assign_priority_band st a) ! k = st ! k"
    by (rule assign_priority_band_keeps_store)
next
  fix b assume ok: "fst (assign_priority_band st a) = Inr b"
  from assign_priority_band_Inr [OF ok] obtain rb vb pb where
    b: "b = length st" and
    out: "snd (assign_priority_band st a) =
            st @ [setcol (setcol (setcol (st ! a) ''risk_band'' rb) ''value_band'' vb)
                    ''priority_band'' pb]"
    by blast
  have outb: "snd (assign_priority_band st a) ! b =
      setcol (setcol (setcol (st ! a) ''risk_band'' rb) ''value_band'' vb) ''priority_band'' pb"
    by (simp add: out b)
  show "b = length st" by (rule b)
  show "length (snd (assign_priority_band st a)) = length st + 1"
    by (simp add: out)
  show "fst ` set (snd (assign_priority_band st a) ! b) = fst ` set (st ! a) \<union> set band_columns"
    unfolding outb by (simp add: names_setcol band_columns_def insert_commute)
  show "filter (\<lambda>c. c \<notin> set band_columns) (map fst (snd (assign_priority_band st a) ! b)) =
        filter (\<lambda>c. c \<notin> set band_columns) (map fst (st ! a))"
    unfolding outb by (simp add: filter_names_setcol band_columns_def)
  { fix c assume "c \<notin> set band_columns"
    then show "getcol (snd (assign_priority_band st a) ! b) c = getcol (st ! a) c"
      unfolding outb by (simp add: getcol_setcol band_columns_def) }
  { assume "set band_columns \<inter> fst ` set (st ! a) = {}"
    then have "''risk_band'' \<notin> fst ` set (st ! a)" "''value_band'' \<notin> fst ` set (st ! a)"
      "''priority_band'' \<notin> fst ` set (st ! a)"
      by (simp_all add: band_columns_def)
    then show "map fst (snd (assign_priority_band st a) ! b) = map fst (st ! a) @ band_columns"
      unfolding outb by (simp add: map_fst_setcol names_setcol band_columns_def) }
qed

theorem assign_priority_band_frame_witness:
  "fst (assign_priority_band [example_scored] 0) = Inr 1 \<and>
   snd (assign_priority_band [example_scored] 0) ! 0 = example_scored \<and>
   getcol (snd (assign_priority_band [example_scored] 0) ! 1) ''monetary'' =
     getcol example_scored ''monetary'' \<and>
   map fst (snd (assign_priority_band [example_scored] 0) ! 1) =
     [''customer_unique_id'', ''monetary'', ''churn_risk'', ''risk_band'', ''value_band'',
      ''priority_band'']"
proof -
  have r: "fst (assign_priority_band [example_scored] 0) = Inr 1"
    by (simp add: assign_priority_band_example)
  have fresh: "set band_columns \<inter> fst ` set ([example_scored] ! 0) = {}"
    by (simp add: band_columns_def example_scored_def)
  have m: "''monetary'' \<notin> set band_columns"
    by (simp add: band_columns_def)
  have names: "map fst ([example_scored] ! 0) @ band_columns =
     [''customer_unique_id'', ''monetary'', ''churn_risk'', ''risk_band'', ''value_band'',
      ''priority_band'']"
    by (simp add: band_columns_def example_scored_def)
  note t = assign_priority_band_frame [of "[example_scored]" 0]
  from t have "snd (assign_priority_band [example_scored] 0) ! 0 = example_scored"
    by simp
  moreover from t r m
  have "getcol (snd (assign_priority_band [example_scored] 0) ! 1) ''monetary'' =
     getcol example_scored ''monetary''"
    by simp
  moreover from t r fresh
  have "map fst (snd (assign_priority_band [example_scored] 0) ! 1) =
     map fst ([example_scored] ! 0) @ band_columns"
    by simp
  ultimately show ?thesis using r names by simp
qed

section \<open>Tertiles of pairwise distinct values\<close>



























end
